theory Spec2Isabelle
  imports Complex_Main
begin

section \<open>Data model of \<open>mesmo/utils.py\<close>\<close>

text \<open>
  The embedding follows class \<open>OptimizationProblem\<close> and function \<open>get_index\<close> of
  \<open>src/mesmo/utils.py\<close>. Python floats are idealised as \<^typ>\<open>real\<close>. Every
  \<open>raise\<close> of the source is a value \<open>Inl e\<close>, where \<open>e\<close> carries the exception class
  and the fixed part of its message.
\<close>

datatype error =
    ValueError string
  | TypeError string
  | KeyError string
  | IndexError string
  | RuntimeError string
  | AttributeError string

text \<open>
  Numerical values: a float, a flat array of shape \<open>(n,)\<close>, or a two-dimensional array
  (dense or sparse; both behave alike on every path modelled here) as its list of rows.
\<close>

datatype num = Scalar real | Flat "real list" | Matrix "real list list"

definition ncols :: "real list list \<Rightarrow> nat" where
  "ncols m = (case m of [] \<Rightarrow> 0 | r # _ \<Rightarrow> length r)"

text \<open>\<open>np.shape(value)\<close>.\<close>

fun shape :: "num \<Rightarrow> nat list" where
  "shape (Scalar v) = []"
| "shape (Flat xs) = [length xs]"
| "shape (Matrix m) = [length m, ncols m]"

text \<open>
  Key values of the index tables: strings, integers (also standing for timestamps) and
  tuples. A keyword argument is a single value, a list-like sequence (list, array, pandas
  index) or a Python tuple; a \<open>range\<close> object, which the declaration of variables
  expands and the declaration of constraints keeps as one value, is not among the
  keyword arguments modelled.
\<close>

datatype key = KStr string | KInt int | KTup "key list"

datatype keyarg = Single key | KList "key list" | KTuple "key list"

text \<open>
  A \<open>pd.DataFrame\<close>: column names, index labels and one row of cells per label; a
  missing cell (\<open>NaN\<close>) is \<open>None\<close>.
\<close>

record table =
  columns :: "string list"
  index :: "nat list"
  cells :: "key option list list"


text \<open>Entries of the accumulator dictionaries: a literal value, or a parameter reference.\<close>

datatype a_entry = ALit "real list list" | APar real string nat
datatype b_entry = BLit num | BPar real string nat
datatype c_entry = CLit num | CPar string nat

text \<open>
  The dual vector as a solve stores it: a column of shape \<open>(n, 1)\<close>, or a flat array of
  shape \<open>(n,)\<close>. An entry may be \<open>NaN\<close>, written \<open>None\<close>.
\<close>

datatype dual_array = Col "real option list" | Vec "real option list"

record optimization_problem =
  variables :: table
  constraints :: table
  constraints_len :: nat
  parameters :: "string \<rightharpoonup> num"
  a_dict :: "((nat list \<times> nat list) \<times> a_entry list) list"
  b_dict :: "(nat list \<times> b_entry list) list"
  c_dict :: "(nat list \<times> c_entry list) list"
  x_vector :: "real list option"
  mu_vector :: "dual_array option"
  objective :: "real option"
  warnings :: "string list"

text \<open>\<open>OptimizationProblem.__init__\<close>.\<close>

definition init :: optimization_problem where
  "init = \<lparr> variables = \<lparr>columns = [''name'', ''timestep''], index = [], cells = []\<rparr>,
            constraints = \<lparr>columns = [''name'', ''timestep'', ''constraint_type''], index = [], cells = []\<rparr>,
            constraints_len = 0,
            parameters = Map.empty,
            a_dict = [], b_dict = [], c_dict = [],
            x_vector = None, mu_vector = None, objective = None,
            warnings = [] \<rparr>"

section \<open>Index tables\<close>

text \<open>Position of a column name; \<open>index_set.loc[:, level]\<close> raises \<open>KeyError\<close> without it.\<close>

fun find_column :: "string list \<Rightarrow> string \<Rightarrow> nat option" where
  "find_column [] c = None"
| "find_column (x # xs) c = (if x = c then Some 0 else map_option Suc (find_column xs c))"

definition cell :: "key option list \<Rightarrow> nat \<Rightarrow> key option" where
  "cell r j = (if j < length r then r ! j else None)"

definition get_level_values :: "table \<Rightarrow> string \<Rightarrow> error + key option list" where
  "get_level_values t level =
     (case find_column (columns t) level of
        None \<Rightarrow> Inl (KeyError level)
      | Some j \<Rightarrow> Inr (map (\<lambda>r. cell r j) (cells t)))"

text \<open>
  The value list of one keyword of \<open>get_index\<close>: a list stays, a tuple is wrapped when
  the first non-missing value of the level is itself a tuple and unpacked otherwise, a
  single value becomes a one-element list.
\<close>

fun is_tuple :: "key \<Rightarrow> bool" where
  "is_tuple (KTup _) = True"
| "is_tuple _ = False"

definition values_as_list :: "key option list \<Rightarrow> keyarg \<Rightarrow> error + key list" where
  "values_as_list level_values v =
     (case v of
        KList ks \<Rightarrow> Inr ks
      | KTuple ks \<Rightarrow>
          (case filter (\<lambda>c. c \<noteq> None) level_values of
             [] \<Rightarrow> Inl (IndexError ''index 0 is out of bounds for axis 0 with size 0'')
           | c # _ \<Rightarrow> (if is_tuple (the c) then Inr [KTup ks] else Inr ks))
      | Single k \<Rightarrow> Inr [k])"

definition isin :: "key option list \<Rightarrow> key list \<Rightarrow> bool list" where
  "isin level_values vs = map (\<lambda>c. case c of None \<Rightarrow> False | Some k \<Rightarrow> k \<in> set vs) level_values"

fun get_mask :: "table \<Rightarrow> bool list \<Rightarrow> (string \<times> keyarg) list \<Rightarrow> error + bool list" where
  "get_mask t msk [] = Inr msk"
| "get_mask t msk ((level, v) # rest) =
     (case get_level_values t level of
        Inl e \<Rightarrow> Inl e
      | Inr lv \<Rightarrow>
          (case values_as_list lv v of
             Inl e \<Rightarrow> Inl e
           | Inr vs \<Rightarrow> get_mask t (map2 (\<and>) msk (isin lv vs)) rest))"

text \<open>\<open>np.flatnonzero(mask)\<close>.\<close>

definition flatnonzero :: "bool list \<Rightarrow> nat list" where
  "flatnonzero msk = filter (\<lambda>i. msk ! i) [0..<length msk]"

definition get_index :: "table \<Rightarrow> bool \<Rightarrow> (string \<times> keyarg) list \<Rightarrow> error + nat list" where
  "get_index index_set raise_empty_index_error levels_values =
     (case get_mask index_set (replicate (length (cells index_set)) True) levels_values of
        Inl e \<Rightarrow> Inl e
      | Inr msk \<Rightarrow>
          (let idx = flatnonzero msk
           in if raise_empty_index_error \<and> \<not> (length idx > 0)
              then Inl (ValueError ''Empty index returned'')
              else Inr idx))"

text \<open>
  \<open>pd.concat([t1, t2], ignore_index=True)\<close>: the columns are those of \<open>t1\<close> followed
  by the new ones of \<open>t2\<close>; rows are aligned by column name, missing cells are \<open>NaN\<close>.
\<close>

definition align :: "string list \<Rightarrow> string list \<Rightarrow> key option list \<Rightarrow> key option list" where
  "align cols_from cols_to r =
     map (\<lambda>c. case find_column cols_from c of None \<Rightarrow> None | Some j \<Rightarrow> cell r j) cols_to"

definition concat_columns :: "string list \<Rightarrow> string list \<Rightarrow> string list" where
  "concat_columns c1 c2 = c1 @ filter (\<lambda>c. c \<notin> set c1) (remdups c2)"

text \<open>\<open>drop_duplicates\<close> keeps the first occurrence of every row, in order.\<close>

definition drop_duplicates :: "'a list \<Rightarrow> 'a list" where
  "drop_duplicates xs = rev (remdups (rev xs))"

text \<open>\<open>itertools.product\<close> of the expanded key sets, first key slowest.\<close>

fun product :: "'a list list \<Rightarrow> 'a list list" where
  "product [] = [[]]"
| "product (xs # rest) = concat (map (\<lambda>x. map (\<lambda>p. x # p) (product rest)) xs)"

text \<open>In \<open>define_variable\<close>, lists, tuples, arrays, indexes and ranges are expanded.\<close>

fun expand :: "keyarg \<Rightarrow> key list" where
  "expand (Single k) = [k]"
| "expand (KList ks) = ks"
| "expand (KTuple ks) = ks"

definition new_variables :: "string \<Rightarrow> (string \<times> keyarg) list \<Rightarrow> table" where
  "new_variables name keys =
     (let rs = product ([KStr name] # map (\<lambda>(k, v). expand v) keys)
      in \<lparr>columns = ''name'' # map fst keys, index = [0..<length rs], cells = map (map Some) rs\<rparr>)"

definition concat_dedup :: "table \<Rightarrow> table \<Rightarrow> table" where
  "concat_dedup t1 t2 =
     (let cols = concat_columns (columns t1) (columns t2);
          rs = drop_duplicates (map (align (columns t1) cols) (cells t1)
                                @ map (align (columns t2) cols) (cells t2))
      in \<lparr>columns = cols, index = [0..<length rs], cells = rs\<rparr>)"

definition define_variable ::
  "optimization_problem \<Rightarrow> string \<Rightarrow> (string \<times> keyarg) list \<Rightarrow> optimization_problem" where
  "define_variable s name keys =
     s\<lparr>variables := concat_dedup (variables s) (new_variables name keys)\<rparr>"








section \<open>Parameter store\<close>

text \<open>
  An exception object that is built by an expression statement and never raised:
  \<open>if cond: ValueError(...)\<close> without \<open>raise\<close>. The statement has no effect, whatever the
  condition; the continuation \<open>k\<close> runs in both cases.
\<close>

definition not_raised :: "bool \<Rightarrow> error \<Rightarrow> 'a \<Rightarrow> 'a" where
  "not_raised cond e k = k"

text \<open>
  \<open>define_parameter\<close>: the shape check of a redefinition builds its \<open>ValueError\<close>
  without raising it, and control falls through to the assignment.
\<close>

definition define_parameter ::
  "optimization_problem \<Rightarrow> string \<Rightarrow> num \<Rightarrow> error + optimization_problem" where
  "define_parameter s name v =
     not_raised (case parameters s name of Some old \<Rightarrow> shape v \<noteq> shape old | None \<Rightarrow> False)
       (ValueError ''Mismatch of redefined parameter'')
       (Inr (s\<lparr>parameters := (parameters s)(name \<mapsto> v)\<rparr>))"

section \<open>Numerical helpers\<close>

text \<open>\<open>value * sp.eye(n)\<close>.\<close>

definition eye :: "nat \<Rightarrow> real \<Rightarrow> real list list" where
  "eye n v = map (\<lambda>i. map (\<lambda>j. if i = j then v else 0) [0..<n]) [0..<n]"

text \<open>\<open>sp.block_diag([m] * k)\<close>: \<open>k\<close> copies of \<open>m\<close> along the diagonal.\<close>

definition block_diag :: "real list list \<Rightarrow> nat \<Rightarrow> real list list" where
  "block_diag m k =
     concat (map (\<lambda>b. map (\<lambda>r. replicate (b * ncols m) 0 @ r @ replicate ((k - 1 - b) * ncols m) 0) m)
                 [0..<k])"

definition scale :: "real \<Rightarrow> real list list \<Rightarrow> real list list" where
  "scale f m = map (map (\<lambda>v. f * v)) m"

text \<open>Multiplication of a float with a constant value (flat array or column vector).\<close>

fun scale_num :: "real \<Rightarrow> num \<Rightarrow> num" where
  "scale_num f (Scalar v) = Scalar (f * v)"
| "scale_num f (Flat xs) = Flat (map (\<lambda>v. f * v) xs)"
| "scale_num f (Matrix m) = Matrix (scale f m)"


text \<open>An insertion-ordered \<open>defaultdict(list)\<close>: \<open>d[k].append(v)\<close>.\<close>

fun dict_append :: "('k \<times> 'v list) list \<Rightarrow> 'k \<Rightarrow> 'v \<Rightarrow> ('k \<times> 'v list) list" where
  "dict_append [] k v = [(k, [v])]"
| "dict_append ((k', vs) # d) k v =
     (if k' = k then (k', vs @ [v]) # d else (k', vs) # dict_append d k v)"

section \<open>Term collector: constraints\<close>

type_synonym keys = "(string \<times> keyarg) list"

datatype coeff = Lit num | Par string

text \<open>
  An element of \<open>define_constraint\<close>: a tuple \<open>(type, value[, keys])\<close> or a string.
\<close>

datatype element = Tuple string coeff "keys option" | Str string

type_synonym vterm = "real \<times> coeff \<times> keys"
type_synonym cterm = "real \<times> coeff \<times> keys option"

datatype side = Left | Right

text \<open>The \<open>broadcast\<close> argument: absent, a string, a list or tuple of strings, or another type.\<close>

datatype broadcast_arg = BNone | BStr string | BSeq "string list" | BOther

text \<open>The type check of the \<open>broadcast\<close> argument: a string becomes a one-element list.\<close>

fun broadcast_list :: "broadcast_arg \<Rightarrow> error + string list option" where
  "broadcast_list BNone = Inr None"
| "broadcast_list (BStr b) = Inr (Some [b])"
| "broadcast_list (BSeq bs) = Inr (Some bs)"
| "broadcast_list BOther = Inl (ValueError ''Invalid type of broadcast argument'')"

text \<open>\<open>len(value)\<close> of a key value: an integer has no length, a string has its characters.\<close>

fun keyarg_len :: "keyarg \<Rightarrow> error + nat" where
  "keyarg_len (KList ks) = Inr (length ks)"
| "keyarg_len (KTuple ks) = Inr (length ks)"
| "keyarg_len (Single (KStr s)) = Inr (length s)"
| "keyarg_len (Single (KTup ks)) = Inr (length ks)"
| "keyarg_len (Single (KInt i)) = Inl (TypeError ''object has no len()'')"

text \<open>
  A \<open>for\<close> loop whose body may raise: the state is threaded through the iterations,
  and the first error ends the loop.
\<close>

fun for_each :: "('a \<Rightarrow> 's \<Rightarrow> error + 's) \<Rightarrow> 'a list \<Rightarrow> 's \<Rightarrow> error + 's" where
  "for_each body [] st = Inr st"
| "for_each body (x # xs) st =
     (case body x st of Inl e \<Rightarrow> Inl e | Inr st' \<Rightarrow> for_each body xs st')"

text \<open>
  The body of the element loop of \<open>define_constraint\<close>, on the loop state
  \<open>(variables, constants, operator, side)\<close>. The three checks on the position and the
  number of operators build their \<open>ValueError\<close> without raising it; only the missing
  operator, tested after the loop, is raised.
\<close>

type_synonym aggregation = "vterm list \<times> cterm list \<times> string option \<times> side"

definition aggregate_element :: "element list \<Rightarrow> element \<Rightarrow> aggregation \<Rightarrow> error + aggregation" where
  "aggregate_element elements element st =
     (case st of (vs, cs, operator, sd) \<Rightarrow>
        (case element of
           Tuple element_type element_value element_keys \<Rightarrow>
             (if element_type \<in> set [''variable'', ''var'', ''v''] then
                (case element_keys of
                   None \<Rightarrow> Inl (ValueError ''Missing keys for variable'')
                 | Some ks \<Rightarrow>
                     Inr (vs @ [(if sd = Right then - 1 else 1, element_value, ks)], cs, operator, sd))
              else if element_type \<in> set [''constant'', ''con'', ''c''] then
                Inr (vs, cs @ [(if sd = Left then - 1 else 1, element_value, element_keys)], operator, sd)
              else Inl (ValueError ''Invalid constraint element type''))
         | Str op \<Rightarrow>
             (if op \<in> set [''=='', ''<='', ''>=''] then
                not_raised (element = hd elements)
                  (ValueError ''Operator is first element of a constraint.'')
                  (not_raised (element = last elements)
                     (ValueError ''Operator is last element of a constraint.'')
                     (not_raised (operator \<noteq> None)
                        (ValueError ''Multiple operators defined in one constraint.'')
                        (Inr (vs, cs, Some op, Right))))
              else Inl (ValueError ''Invalid constraint element''))))"

text \<open>
  One variable term of \<open>define_constraint_low_level\<close>, up to the value it contributes.
  The scan for empty key values ends in \<open>continue\<close>, which belongs to the inner loop
  over the key values: it does not leave the iteration of the term.
\<close>

definition continue_inner :: "bool \<Rightarrow> 'a \<Rightarrow> 'a" where
  "continue_inner cond k = k"

fun is_sequence :: "keyarg \<Rightarrow> bool" where
  "is_sequence (Single _) = False"
| "is_sequence (KList _) = True"
| "is_sequence (KTuple _) = True"

definition has_empty_key :: "keys \<Rightarrow> bool" where
  "has_empty_key ks = list_ex (\<lambda>(k, v). is_sequence v \<and> expand v = []) ks"

fun lookup_key :: "keys \<Rightarrow> string \<Rightarrow> keyarg option" where
  "lookup_key [] k = None"
| "lookup_key ((k', v) # ks) k = (if k' = k then Some v else lookup_key ks k)"

text \<open>Broadcast length of a variable term: every broadcast key must be a key of the term.\<close>

fun variable_broadcast_len :: "string list \<Rightarrow> keys \<Rightarrow> nat \<Rightarrow> error + nat" where
  "variable_broadcast_len [] ks n = Inr n"
| "variable_broadcast_len (broadcast_key # bs) ks n =
     (case lookup_key ks broadcast_key of
        None \<Rightarrow> Inl (ValueError ''Invalid broadcast dimension'')
      | Some v \<Rightarrow>
          (case keyarg_len v of
             Inl e \<Rightarrow> Inl e
           | Inr l \<Rightarrow> variable_broadcast_len bs ks (n * l)))"

text \<open>Broadcast length of a constant term: broadcast keys missing from the term are skipped.\<close>

fun constant_broadcast_len :: "string list \<Rightarrow> keys \<Rightarrow> nat \<Rightarrow> error + nat" where
  "constant_broadcast_len [] ks n = Inr n"
| "constant_broadcast_len (broadcast_key # bs) ks n =
     (case lookup_key ks broadcast_key of
        None \<Rightarrow> constant_broadcast_len bs ks n
      | Some v \<Rightarrow>
          (case keyarg_len v of
             Inl e \<Rightarrow> Inl e
           | Inr l \<Rightarrow> constant_broadcast_len bs ks (n * l)))"

definition lookup_parameter :: "(string \<rightharpoonup> num) \<Rightarrow> string \<Rightarrow> error + num" where
  "lookup_parameter ps name = (case ps name of None \<Rightarrow> Inl (KeyError name) | Some v \<Rightarrow> Inr v)"

text \<open>
  The coefficient matrix of a variable term from its value: a flat array is one row, a
  scalar multiplies the identity of the size of the variable index, any other value is
  tiled along the diagonal when broadcasting.
\<close>

fun variable_matrix :: "num \<Rightarrow> nat \<Rightarrow> nat \<Rightarrow> real list list" where
  "variable_matrix (Scalar v) n broadcast_len = eye n v"
| "variable_matrix (Flat xs) n broadcast_len =
     (if broadcast_len > 1 then block_diag [xs] broadcast_len else [xs])"
| "variable_matrix (Matrix m) n broadcast_len =
     (if broadcast_len > 1 then block_diag m broadcast_len else m)"

definition resolve_variable ::
  "table \<Rightarrow> (string \<rightharpoonup> num) \<Rightarrow> string list option \<Rightarrow> coeff \<Rightarrow> keys
     \<Rightarrow> error + (nat list \<times> string option \<times> real list list \<times> nat)" where
  "resolve_variable vars ps broadcast variable_value variable_keys =
     continue_inner (has_empty_key variable_keys)
       (case get_index vars True variable_keys of
          Inl e \<Rightarrow> Inl e
        | Inr variable_index \<Rightarrow>
            (case (case broadcast of
                     None \<Rightarrow> Inr 1
                   | Some bs \<Rightarrow> variable_broadcast_len bs variable_keys 1) of
               Inl e \<Rightarrow> Inl e
             | Inr broadcast_len \<Rightarrow>
                 (case variable_value of
                    Par parameter_name \<Rightarrow>
                      (case lookup_parameter ps parameter_name of
                         Inl e \<Rightarrow> Inl e
                       | Inr v \<Rightarrow>
                           Inr (variable_index, Some parameter_name,
                                variable_matrix v (length variable_index) broadcast_len, broadcast_len))
                  | Lit v \<Rightarrow>
                      Inr (variable_index, None,
                           variable_matrix v (length variable_index) broadcast_len, broadcast_len))))"

text \<open>
  The body of the loop over the variable terms, on the loop state \<open>(constraint_index,
  a_dict)\<close>. The first term fixes the constraint index from the row count of its matrix;
  every term must have the shape \<open>(len(constraint_index), len(variable_index))\<close>.
\<close>

type_synonym a_dict_t = "((nat list \<times> nat list) \<times> a_entry list) list"
type_synonym b_dict_t = "(nat list \<times> b_entry list) list"
type_synonym c_dict_t = "(nat list \<times> c_entry list) list"

definition process_variable ::
  "table \<Rightarrow> (string \<rightharpoonup> num) \<Rightarrow> string list option \<Rightarrow> nat \<Rightarrow> real \<Rightarrow> vterm
     \<Rightarrow> nat list option \<times> a_dict_t \<Rightarrow> error + (nat list option \<times> a_dict_t)" where
  "process_variable vars ps broadcast len operator_factor term st =
     (case term of (variable_factor, variable_value, variable_keys) \<Rightarrow>
      case st of (ci, ad) \<Rightarrow>
        (case resolve_variable vars ps broadcast variable_value variable_keys of
           Inl e \<Rightarrow> Inl e
         | Inr (variable_index, parameter_name, m, broadcast_len) \<Rightarrow>
             (let constraint_index = (case ci of None \<Rightarrow> [len..<len + length m] | Some c \<Rightarrow> c)
              in if [length m, ncols m] \<noteq> [length constraint_index, length variable_index]
                 then Inl (ValueError ''Dimension mismatch at variable'')
                 else Inr (Some constraint_index,
                           dict_append ad (constraint_index, variable_index)
                             (case parameter_name of
                                None \<Rightarrow> ALit (scale (operator_factor * variable_factor) m)
                              | Some name \<Rightarrow> APar (operator_factor * variable_factor) name broadcast_len)))))"

text \<open>
  The value of a constant term: a scalar is cast to a vector of the size of the
  constraint index, any other value is repeated along axis 0 when broadcasting.
\<close>

fun constant_vector :: "num \<Rightarrow> nat list option \<Rightarrow> nat \<Rightarrow> error + num" where
  "constant_vector (Scalar v) None broadcast_len = Inl (TypeError ''object of type NoneType has no len()'')"
| "constant_vector (Scalar v) (Some c) broadcast_len = Inr (Flat (replicate (length c) v))"
| "constant_vector (Flat xs) ci broadcast_len =
     Inr (if broadcast_len > 1 then Flat (concat (replicate broadcast_len xs)) else Flat xs)"
| "constant_vector (Matrix m) ci broadcast_len =
     Inr (if broadcast_len > 1 then Matrix (concat (replicate broadcast_len m)) else Matrix m)"

text \<open>\<open>len(value)\<close> of an array.\<close>

fun num_len :: "num \<Rightarrow> nat" where
  "num_len (Scalar v) = 0"
| "num_len (Flat xs) = length xs"
| "num_len (Matrix m) = length m"

definition resolve_constant ::
  "(string \<rightharpoonup> num) \<Rightarrow> string list option \<Rightarrow> nat list option \<Rightarrow> coeff \<Rightarrow> keys option
     \<Rightarrow> error + (string option \<times> num \<times> nat)" where
  "resolve_constant ps broadcast ci constant_value constant_keys =
     (case (case constant_value of
              Par parameter_name \<Rightarrow>
                (case lookup_parameter ps parameter_name of
                   Inl e \<Rightarrow> Inl e
                 | Inr v \<Rightarrow> Inr (Some parameter_name, v))
            | Lit v \<Rightarrow> Inr (None, v)) of
        Inl e \<Rightarrow> Inl e
      | Inr (parameter_name, v) \<Rightarrow>
          (case (case broadcast of
                   None \<Rightarrow> Inr 1
                 | Some bs \<Rightarrow>
                     (case constant_keys of
                        None \<Rightarrow> Inr 1
                      | Some ks \<Rightarrow> constant_broadcast_len bs ks 1)) of
             Inl e \<Rightarrow> Inl e
           | Inr broadcast_len \<Rightarrow>
               (case constant_vector v ci broadcast_len of
                  Inl e \<Rightarrow> Inl e
                | Inr val \<Rightarrow>
                    (if length (shape val) > 1 \<and> shape val ! 1 > 1
                     then Inl (ValueError ''Constant must be column vector (n, 1), not row vector (1, n).'')
                     else Inr (parameter_name, val, broadcast_len)))))"

text \<open>
  The body of the loop over the constant terms, on the loop state \<open>(constraint_index,
  b_dict)\<close>.
\<close>

definition process_constant ::
  "(string \<rightharpoonup> num) \<Rightarrow> string list option \<Rightarrow> nat \<Rightarrow> real \<Rightarrow> cterm
     \<Rightarrow> nat list option \<times> b_dict_t \<Rightarrow> error + (nat list option \<times> b_dict_t)" where
  "process_constant ps broadcast len operator_factor term st =
     (case term of (constant_factor, constant_value, constant_keys) \<Rightarrow>
      case st of (ci, bd) \<Rightarrow>
        (case resolve_constant ps broadcast ci constant_value constant_keys of
           Inl e \<Rightarrow> Inl e
         | Inr (parameter_name, val, broadcast_len) \<Rightarrow>
             (let constraint_index = (case ci of None \<Rightarrow> [len..<len + num_len val] | Some c \<Rightarrow> c)
              in if num_len val \<noteq> length constraint_index
                 then Inl (ValueError ''Dimension mismatch at constant'')
                 else Inr (Some constraint_index,
                           dict_append bd constraint_index
                             (case parameter_name of
                                None \<Rightarrow> BLit (scale_num (operator_factor * constant_factor) val)
                              | Some name \<Rightarrow> BPar (operator_factor * constant_factor) name broadcast_len)))))"

text \<open>\<open>keys[k] = v\<close> on an insertion-ordered dictionary.\<close>

fun dict_set :: "keys \<Rightarrow> string \<Rightarrow> keyarg \<Rightarrow> keys" where
  "dict_set [] k v = [(k, v)]"
| "dict_set ((k', v') # ks) k v = (if k' = k then (k', v) # ks else (k', v') # dict_set ks k v)"

text \<open>
  The constraint type stored with the rows: a type \<open>==>=\<close> or \<open>==<=\<close> given by the
  caller stays, anything else is replaced by the operator.
\<close>

definition set_constraint_type :: "keys \<Rightarrow> string \<Rightarrow> keys" where
  "set_constraint_type ks operator =
     (case lookup_key ks ''constraint_type'' of
        Some v \<Rightarrow>
          (if v \<noteq> Single (KStr ''==>='') \<and> v \<noteq> Single (KStr ''==<='')
           then dict_set ks ''constraint_type'' (Single (KStr operator))
           else ks)
      | None \<Rightarrow> dict_set ks ''constraint_type'' (Single (KStr operator)))"

definition new_constraints :: "keys \<Rightarrow> nat list \<Rightarrow> table" where
  "new_constraints ks constraint_index =
     \<lparr>columns = map fst ks, index = constraint_index,
      cells = map (map Some) (product (map (\<lambda>(k, v). expand v) ks))\<rparr>"

text \<open>\<open>DataFrame.append\<close>: rows are aligned by column name, index labels are kept.\<close>

definition append_table :: "table \<Rightarrow> table \<Rightarrow> table" where
  "append_table t1 t2 =
     (let cols = concat_columns (columns t1) (columns t2)
      in \<lparr>columns = cols, index = index t1 @ index t2,
          cells = map (align (columns t1) cols) (cells t1) @ map (align (columns t2) cols) (cells t2)\<rparr>)"

text \<open>
  The branch of \<open>define_constraint_low_level\<close> for the operators \<open><=\<close> and \<open>>=\<close>.
\<close>

definition define_inequality ::
  "optimization_problem \<Rightarrow> vterm list \<Rightarrow> string \<Rightarrow> cterm list \<Rightarrow> keys option \<Rightarrow> string list option
     \<Rightarrow> error + optimization_problem" where
  "define_inequality s vs operator cs keys broadcast =
     (let operator_factor = (if operator = ''>='' then - 1 else 1);
          len = constraints_len s
      in case for_each (process_variable (variables s) (parameters s) broadcast len operator_factor)
                vs (None, a_dict s) of
           Inl e \<Rightarrow> Inl e
         | Inr (ci, ad) \<Rightarrow>
             (case for_each (process_constant (parameters s) broadcast len operator_factor)
                     cs (ci, b_dict s) of
                Inl e \<Rightarrow> Inl e
              | Inr (ci', bd) \<Rightarrow>
                  (case ci' of
                     None \<Rightarrow> Inl (TypeError ''object of type NoneType has no len()'')
                   | Some constraint_index \<Rightarrow>
                       (case keys of
                          None \<Rightarrow>
                            Inr (s\<lparr>a_dict := ad, b_dict := bd,
                                   constraints_len := len + length constraint_index\<rparr>)
                        | Some ks \<Rightarrow>
                            (let nc = new_constraints (set_constraint_type ks operator) constraint_index
                             in if length (cells nc) \<noteq> length constraint_index
                                then Inl (ValueError
                                       ''Constraint key set dimension does not align with constraint value dimension'')
                                else Inr (s\<lparr>a_dict := ad, b_dict := bd,
                                            constraints := append_table (constraints s) nc,
                                            constraints_len := len + length constraint_index\<rparr>))))))"

text \<open>The check of the constraint \<open>keys\<close>: a dictionary given must have a \<open>name\<close>.\<close>

definition keys_ok :: "keys option \<Rightarrow> bool" where
  "keys_ok keys = (case keys of None \<Rightarrow> True | Some ks \<Rightarrow> lookup_key ks ''name'' \<noteq> None)"

text \<open>
  \<open>define_constraint_low_level\<close>. For \<open>==\<close> the function calls itself with \<open>>=\<close> and
  then with \<open><=\<close>; both calls pass the entry checks again and take the inequality
  branch. For any other operator the \<open>ValueError\<close> is built and not raised.
\<close>

definition define_constraint_low_level ::
  "optimization_problem \<Rightarrow> vterm list \<Rightarrow> string \<Rightarrow> cterm list \<Rightarrow> keys option \<Rightarrow> broadcast_arg
     \<Rightarrow> error + optimization_problem" where
  "define_constraint_low_level s vs operator cs keys broadcast =
     (if length vs = 0 then Inl (ValueError ''Cannot define constraint without variables.'')
      else if \<not> keys_ok keys
      then Inl (ValueError ''name key is required in constraint keys dictionary'')
      else
        (case broadcast_list broadcast of
           Inl e \<Rightarrow> Inl e
         | Inr bc \<Rightarrow>
             (if operator = ''=='' then
                (case define_inequality s vs ''>='' cs
                        (map_option (\<lambda>ks. dict_set ks ''constraint_type'' (Single (KStr ''==>=''))) keys) bc of
                   Inl e \<Rightarrow> Inl e
                 | Inr s1 \<Rightarrow>
                     define_inequality s1 vs ''<='' cs
                       (map_option (\<lambda>ks. dict_set ks ''constraint_type'' (Single (KStr ''==<=''))) keys) bc)
              else if operator \<in> set [''<='', ''>='']
              then define_inequality s vs operator cs keys bc
              else not_raised True (ValueError ''Invalid constraint operator'') (Inr s))))"

text \<open>\<open>define_constraint\<close>: the element loop, the check for a missing operator, the call.\<close>

definition define_constraint ::
  "optimization_problem \<Rightarrow> element list \<Rightarrow> keys option \<Rightarrow> broadcast_arg \<Rightarrow> error + optimization_problem" where
  "define_constraint s elements keys broadcast =
     (case for_each (aggregate_element elements) elements ([], [], None, Left) of
        Inl e \<Rightarrow> Inl e
      | Inr (vs, cs, operator, sd) \<Rightarrow>
          (case operator of
             None \<Rightarrow> Inl (ValueError ''Cannot define constraint without operator (==, <= or >=).'')
           | Some op \<Rightarrow> define_constraint_low_level s vs op cs keys broadcast))"

section \<open>Term collector: linear objective terms\<close>

text \<open>
  The row vector of a linear objective term: a scalar multiplies a row of ones, any
  other value is repeated along axis 1 when broadcasting.
\<close>

fun objective_vector :: "num \<Rightarrow> nat \<Rightarrow> nat \<Rightarrow> num" where
  "objective_vector (Scalar v) n broadcast_len = Matrix [replicate n v]"
| "objective_vector (Flat xs) n broadcast_len =
     (if broadcast_len > 1 then Matrix [concat (replicate broadcast_len xs)] else Flat xs)"
| "objective_vector (Matrix m) n broadcast_len =
     (if broadcast_len > 1 then Matrix (map (\<lambda>r. concat (replicate broadcast_len r)) m) else Matrix m)"

text \<open>
  The body of the loop over the linear variable terms of
  \<open>define_objective_low_level\<close>, on the loop state \<open>c_dict\<close>. The scan for empty key
  values has the same inner \<open>continue\<close> as in the constraint loop.
\<close>

definition process_objective_variable ::
  "table \<Rightarrow> (string \<rightharpoonup> num) \<Rightarrow> string list option \<Rightarrow> coeff \<times> keys \<Rightarrow> c_dict_t \<Rightarrow> error + c_dict_t" where
  "process_objective_variable vars ps broadcast term cd =
     (case term of (variable_value, variable_keys) \<Rightarrow>
      continue_inner (has_empty_key variable_keys)
       (case get_index vars True variable_keys of
          Inl e \<Rightarrow> Inl e
        | Inr variable_index \<Rightarrow>
            (case (case broadcast of
                     None \<Rightarrow> Inr 1
                   | Some bs \<Rightarrow> variable_broadcast_len bs variable_keys 1) of
               Inl e \<Rightarrow> Inl e
             | Inr broadcast_len \<Rightarrow>
                 (case (case variable_value of
                          Par parameter_name \<Rightarrow>
                            (case lookup_parameter ps parameter_name of
                               Inl e \<Rightarrow> Inl e
                             | Inr v \<Rightarrow> Inr (Some parameter_name, v))
                        | Lit v \<Rightarrow> Inr (None, v)) of
                    Inl e \<Rightarrow> Inl e
                  | Inr (parameter_name, v) \<Rightarrow>
                      (let val = objective_vector v (length variable_index) broadcast_len
                       in if length (shape val) > 1 \<and> shape val ! 0 > 1
                          then Inl (ValueError ''Objective factor must be row vector (1, n) or flat array (n, )'')
                          else if (if length (shape val) > 1
                                   then shape val ! 1 \<noteq> length variable_index
                                   else shape val ! 0 \<noteq> length variable_index)
                          then Inl (ValueError ''Objective factor dimension mismatch at variable'')
                          else Inr (dict_append cd variable_index
                                      (case parameter_name of
                                         None \<Rightarrow> CLit val
                                       | Some name \<Rightarrow> CPar name broadcast_len)))))))"

text \<open>
  \<open>define_objective_low_level\<close> for linear variable terms. Quadratic terms and
  constants fill \<open>q_dict\<close> and \<open>d_dict\<close>, which no statement below reads; they are not
  embedded.
\<close>

definition define_objective_low_level ::
  "optimization_problem \<Rightarrow> (coeff \<times> keys) list \<Rightarrow> broadcast_arg \<Rightarrow> error + optimization_problem" where
  "define_objective_low_level s vs broadcast =
     (case broadcast_list broadcast of
        Inl e \<Rightarrow> Inl e
      | Inr bc \<Rightarrow>
          (case for_each (process_objective_variable (variables s) (parameters s) bc) vs (c_dict s) of
             Inl e \<Rightarrow> Inl e
           | Inr cd \<Rightarrow> Inr (s\<lparr>c_dict := cd\<rparr>)))"

section \<open>Standard-form compiler\<close>



















subsection \<open>Entries of the compiled matrix and vectors\<close>















section \<open>Solver adapter\<close>

text \<open>
  The solver is outside the program; its outcome is an argument. The Gurobi outcome has
  the status code, the primal values, the duals \<open>Pi\<close>, the number of non-zeros in
  quadratic constraints and the objective value; the CVXPY outcome has the status string.
  The duals are stored as the column \<open>np.transpose([Pi])\<close>, or, when Gurobi reports
  non-zeros in quadratic constraints, as \<open>np.nan * np.zeros(constraints.shape)\<close>, a flat
  array, since the Gurobi constraint object has the shape \<open>(n,)\<close>.
\<close>

datatype gurobi_status = OPTIMAL | INFEASIBLE | INF_OR_UNBD | UNBOUNDED | SUBOPTIMAL | OTHER nat

record gurobi_outcome =
  grb_status :: gurobi_status
  grb_x :: "real list"
  grb_pi :: "real list"
  grb_num_qcnzs :: nat
  grb_objective :: real

record cvxpy_outcome =
  cp_status :: string
  cp_x :: "real list"
  cp_dual_value :: "real list"
  cp_objective :: real

definition solve_gurobi :: "optimization_problem \<Rightarrow> gurobi_outcome \<Rightarrow> error + optimization_problem" where
  "solve_gurobi s r =
     (if grb_status r \<notin> set [OPTIMAL, SUBOPTIMAL]
      then Inl (RuntimeError ''Gurobi exited with non-optimal solution status'')
      else
        (let s1 = (if grb_status r = SUBOPTIMAL
                   then s\<lparr>warnings := warnings s @ [''Gurobi exited with non-optimal solution status: Suboptimal'']\<rparr>
                   else s);
             s2 = s1\<lparr>x_vector := Some (grb_x r)\<rparr>;
             s3 = (if grb_num_qcnzs r = 0
                   then s2\<lparr>mu_vector := Some (Col (map Some (grb_pi r)))\<rparr>
                   else s2\<lparr>warnings := warnings s2 @ [''Duals of the optimization problem's constraints are not retrieved''],
                          mu_vector := Some (Vec (replicate (length (grb_pi r)) None))\<rparr>)
         in Inr (s3\<lparr>objective := Some (grb_objective r)\<rparr>)))"

definition solve_cvxpy :: "optimization_problem \<Rightarrow> cvxpy_outcome \<Rightarrow> error + optimization_problem" where
  "solve_cvxpy s r =
     (if \<not> (cp_status r = ''optimal'')
      then Inl (RuntimeError ''CVXPY exited with non-optimal solution status'')
      else Inr (s\<lparr>x_vector := Some (cp_x r),
                  mu_vector := Some (Col (map Some (cp_dual_value r))),
                  objective := Some (cp_objective r)\<rparr>))"

section \<open>Results reconstructor: duals\<close>




















section \<open>Example problems\<close>

text \<open>What a declaration call leaves in the accumulators, or the error it raises.\<close>

definition declared :: "error + optimization_problem \<Rightarrow> error + (a_dict_t \<times> b_dict_t \<times> c_dict_t \<times> nat)" where
  "declared r = map_sum id (\<lambda>s. (a_dict s, b_dict s, c_dict s, constraints_len s)) r"

text \<open>A problem with one variable \<open>x\<close> over the key set \<open>k = [1, 2]\<close>.\<close>

definition problem_x :: optimization_problem where
  "problem_x = define_variable init ''x'' [(''k'', KList [KInt 1, KInt 2])]"




definition term_x :: element where
  "term_x = Tuple ''variable'' (Lit (Scalar 1)) (Some [(''name'', Single (KStr ''x''))])"

definition term_x_empty :: element where
  "term_x_empty = Tuple ''variable'' (Lit (Scalar 1)) (Some [(''name'', Single (KStr ''x'')), (''k'', KList [])])"

definition const_term :: "real \<Rightarrow> element" where
  "const_term v = Tuple ''constant'' (Lit (Scalar v)) None"

definition cvxpy_inaccurate :: cvxpy_outcome where
  "cvxpy_inaccurate = \<lparr>cp_status = ''optimal_inaccurate'', cp_x = [3], cp_dual_value = [1], cp_objective = 3\<rparr>"

definition gurobi_suboptimal :: gurobi_outcome where
  "gurobi_suboptimal =
     \<lparr>grb_status = SUBOPTIMAL, grb_x = [3], grb_pi = [1], grb_num_qcnzs = 0, grb_objective = 3\<rparr>"

definition gurobi_infeasible :: gurobi_outcome where
  "gurobi_infeasible =
     \<lparr>grb_status = INFEASIBLE, grb_x = [], grb_pi = [], grb_num_qcnzs = 0, grb_objective = 0\<rparr>"

text \<open>Two variable terms on \<open>x\<close>: the identity (two rows) and one row of ones.\<close>

definition unit_term :: vterm where
  "unit_term = (1, Lit (Scalar 1), [(''name'', Single (KStr ''x''))])"

definition row_term :: vterm where
  "row_term = (1, Lit (Matrix [[1, 1]]), [(''name'', Single (KStr ''x''))])"

















section \<open>Redefinition of a parameter with another shape\<close>

text \<open>
  C1. The claim states that redefining a stored parameter with a value of another shape
  fails with a shape-mismatch error and leaves the stored value alone. In the source the
  error is constructed but never raised: the second call below succeeds and the scalar
  stored under \<open>p\<close> is replaced by a flat array of length two.
\<close>

theorem define_parameter_shape_mismatch_overwrites:
  "\<exists>s1 s2. define_parameter init ''p'' (Scalar 1) = Inr s1
     \<and> shape (Flat [1, 2]) \<noteq> shape (Scalar 1)
     \<and> define_parameter s1 ''p'' (Flat [1, 2]) = Inr s2
     \<and> parameters s2 ''p'' = Some (Flat [1, 2])"
  by (simp add: define_parameter_def not_raised_def)

section \<open>Malformed operator positions in a constraint\<close>

text \<open>
  C2. The claim states that a constraint with no operator, several operators, or an
  operator in first or last position fails at declaration and adds nothing. Only the
  missing operator is raised. With two operators (\<open>x <= 1 >= 2\<close>), with the operator
  last (\<open>x <=\<close>) and with the operator first (\<open><= x\<close>) the call returns normally and
  two constraint rows are added to \<open>a_dict\<close>.
\<close>

theorem define_constraint_misplaced_operator_accepted:
  "declared (define_constraint problem_x [term_x, Str ''<='', const_term 1, Str ''>='', const_term 2] None BNone)
     = Inr ([(([0, 1], [0, 1]), [ALit [[- 1, 0], [0, - 1]]])],
            [([0, 1], [BLit (Flat [- 1, - 1]), BLit (Flat [- 2, - 2])])], [], 2)
   \<and> declared (define_constraint problem_x [term_x, Str ''<=''] None BNone)
     = Inr ([(([0, 1], [0, 1]), [ALit [[1, 0], [0, 1]]])], [], [], 2)
   \<and> declared (define_constraint problem_x [Str ''<='', term_x] None BNone)
     = Inr ([(([0, 1], [0, 1]), [ALit [[- 1, 0], [0, - 1]]])], [], [], 2)
   \<and> declared (define_constraint problem_x [term_x] None BNone)
     = Inl (ValueError ''Cannot define constraint without operator (==, <= or >=).'')"
  by code_simp

section \<open>Variable terms with an empty key selection\<close>

text \<open>
  C10. The claim (and the comment in the source) states that a variable term whose keys
  hold an empty sequence is skipped without error. The \<open>continue\<close> of the source leaves
  only the scan over the key values; the term is then looked up in the variable table,
  the empty selection matches no row, and \<open>get_index\<close> raises. This holds for the
  constraint and for the objective declaration.
\<close>

theorem empty_key_selection_raises:
  "declared (define_constraint problem_x [term_x_empty, Str ''<='', const_term 1] None BNone)
     = Inl (ValueError ''Empty index returned'')
   \<and> declared (define_objective_low_level problem_x
        [(Lit (Scalar 1), [(''name'', Single (KStr ''x'')), (''k'', KList [])])] BNone)
     = Inl (ValueError ''Empty index returned'')"
  by code_simp

section \<open>Solver termination statuses\<close>

text \<open>
  C8, as stated: a suboptimal termination raises no error and the result vectors are
  stored. On the CVXPY interface this fails: the status \<open>optimal_inaccurate\<close> is not
  \<open>optimal\<close>, and \<open>solve_cvxpy\<close> raises.
\<close>

theorem solve_cvxpy_suboptimal_raises:
  "solve_cvxpy init cvxpy_inaccurate = Inl (RuntimeError ''CVXPY exited with non-optimal solution status'')"
  by (simp add: solve_cvxpy_def cvxpy_inaccurate_def)

text \<open>
  C8, amended: on the Gurobi interface an infeasible, unbounded or
  infeasible-or-unbounded status raises a runtime error, and a suboptimal status raises
  nothing, logs a warning and stores the primal vector, the dual vector and the
  objective; on the CVXPY interface every status other than \<open>optimal\<close> raises a runtime
  error.
\<close>

theorem solve_status_handling:
  "(grb_status r \<in> {INFEASIBLE, INF_OR_UNBD, UNBOUNDED} \<longrightarrow>
      solve_gurobi s r = Inl (RuntimeError ''Gurobi exited with non-optimal solution status''))
   \<and> (grb_status r = SUBOPTIMAL \<longrightarrow>
        (\<exists>s'. solve_gurobi s r = Inr s'
           \<and> x_vector s' = Some (grb_x r)
           \<and> mu_vector s' = Some (if grb_num_qcnzs r = 0 then Col (map Some (grb_pi r))
                                   else Vec (replicate (length (grb_pi r)) None))
           \<and> objective s' = Some (grb_objective r)
           \<and> ''Gurobi exited with non-optimal solution status: Suboptimal'' \<in> set (warnings s')))
   \<and> (cp_status c \<noteq> ''optimal'' \<longrightarrow>
        solve_cvxpy s c = Inl (RuntimeError ''CVXPY exited with non-optimal solution status''))"
  by (auto simp: solve_gurobi_def solve_cvxpy_def Let_def)

theorem solve_status_handling_witness:
  "solve_gurobi init gurobi_infeasible = Inl (RuntimeError ''Gurobi exited with non-optimal solution status'')
   \<and> (\<exists>s'. solve_gurobi init gurobi_suboptimal = Inr s' \<and> x_vector s' = Some [3]
          \<and> mu_vector s' = Some (Col [Some 1]) \<and> objective s' = Some 3)
   \<and> solve_cvxpy init cvxpy_inaccurate = Inl (RuntimeError ''CVXPY exited with non-optimal solution status'')"
  using solve_status_handling [of gurobi_infeasible init cvxpy_inaccurate]
        solve_status_handling [of gurobi_suboptimal init cvxpy_inaccurate]
  by (auto simp: gurobi_infeasible_def gurobi_suboptimal_def cvxpy_inaccurate_def)

section \<open>Idempotent variable declaration\<close>












lemma find_column_append: "c \<in> set c1 \<Longrightarrow> find_column (c1 @ c2) c = find_column c1 c"
  by (induction c1) auto



































section \<open>Recombination of duals\<close>
















section \<open>Row count of a constraint\<close>

lemma for_each_append:
  "for_each body (xs @ ys) st =
     (case for_each body xs st of Inl e \<Rightarrow> Inl e | Inr st' \<Rightarrow> for_each body ys st')"
  by (induction xs arbitrary: st) (auto split: sum.splits)

lemma process_variable_keeps_index:
  "process_variable V P bc L f t (Some c, ad) = Inr (ci, ad') \<Longrightarrow> ci = Some c"
  by (auto simp: process_variable_def Let_def split: prod.splits sum.splits if_splits)

lemma process_variables_keep_index:
  "for_each (process_variable V P bc L f) ts (Some c, ad) = Inr (ci, ad') \<Longrightarrow> ci = Some c"
proof (induction ts arbitrary: ad)
  case Nil
  then show ?case by simp
next
  case (Cons t ts)
  then obtain ci1 ad1 where 1: "process_variable V P bc L f t (Some c, ad) = Inr (ci1, ad1)"
    and 2: "for_each (process_variable V P bc L f) ts (ci1, ad1) = Inr (ci, ad')"
    by (auto split: sum.splits)
  from 1 have "ci1 = Some c" by (rule process_variable_keeps_index)
  with 2 Cons.IH show ?case by simp
qed

lemma process_variable_first:
  "process_variable V P bc L f (vf, vv, vk) (None, ad) = Inr (ci, ad') \<Longrightarrow>
   resolve_variable V P bc vv vk = Inr (vi, pn, m, bl) \<Longrightarrow> ci = Some [L..<L + length m]"
  by (auto simp: process_variable_def Let_def split: if_splits)

lemma process_variable_mismatch:
  "resolve_variable V P bc vv vk = Inr (vi, pn, m, bl) \<Longrightarrow> length m \<noteq> length c \<Longrightarrow>
   process_variable V P bc L f (vf, vv, vk) (Some c, ad) = Inl (ValueError ''Dimension mismatch at variable'')"
  by (simp add: process_variable_def)

lemma process_constant_mismatch:
  "resolve_constant P bc (Some c) cv ck = Inr (pn, val, bl) \<Longrightarrow> num_len val \<noteq> length c \<Longrightarrow>
   process_constant P bc L f (cf, cv, ck) (Some c, bd) = Inl (ValueError ''Dimension mismatch at constant'')"
  by (simp add: process_constant_def)

lemma define_inequality_variable_mismatch:
  assumes "for_each (process_variable (variables s) (parameters s) bc (constraints_len s) (if op = ''>='' then - 1 else 1))
             pre (None, a_dict s) = Inr (Some c, ad)"
      and "resolve_variable (variables s) (parameters s) bc vv vk = Inr (vi, pn, m, bl)"
      and "length m \<noteq> length c"
  shows "define_inequality s (pre @ (vf, vv, vk) # post) op cs keys bc
           = Inl (ValueError ''Dimension mismatch at variable'')"
  using assms
  by (simp add: define_inequality_def Let_def for_each_append process_variable_mismatch)

lemma define_inequality_constant_mismatch:
  assumes "for_each (process_variable (variables s) (parameters s) bc (constraints_len s) (if op = ''>='' then - 1 else 1))
             vs (None, a_dict s) = Inr (ci0, ad)"
      and "for_each (process_constant (parameters s) bc (constraints_len s) (if op = ''>='' then - 1 else 1))
             pre (ci0, b_dict s) = Inr (Some c, bd)"
      and "resolve_constant (parameters s) bc (Some c) cv ck = Inr (pn, val, bl)"
      and "num_len val \<noteq> length c"
  shows "define_inequality s vs op (pre @ (cf, cv, ck) # post) keys bc
           = Inl (ValueError ''Dimension mismatch at constant'')"
  using assms
  by (simp add: define_inequality_def Let_def for_each_append process_constant_mismatch)

lemma low_level_inequality:
  assumes "op \<in> set [''<='', ''>='']" "vs \<noteq> []" "keys_ok keys" "broadcast_list b = Inr bc"
  shows "define_constraint_low_level s vs op cs keys b = define_inequality s vs op cs keys bc"
  using assms by (auto simp: define_constraint_low_level_def keys_ok_def split: option.splits)

lemma low_level_equality_error:
  assumes "vs \<noteq> []" "keys_ok keys" "broadcast_list b = Inr bc"
      and "\<And>keys'. define_inequality s vs ''>='' cs keys' bc = Inl e"
  shows "define_constraint_low_level s vs ''=='' cs keys b = Inl e"
  using assms by (auto simp: define_constraint_low_level_def keys_ok_def split: option.splits)

text \<open>
  C9. Within one declaration the first variable term fixes the constraint index as
  \<open>constraints_len\<close> up to \<open>constraints_len\<close> plus the row count of its matrix. When
  the terms before a variable term (or a constant term) have been processed and the
  row count of that term differs from the length of the constraint index, the call
  raises the dimension mismatch error.
\<close>

theorem constraint_row_count:
  "(for_each (process_variable V P bc L f) ((vf, vv, vk) # rest) (None, ad0) = Inr (ci, ad') \<longrightarrow>
      resolve_variable V P bc vv vk = Inr (vi, pn, m, bl) \<longrightarrow> ci = Some [L..<L + length m])
   \<and> (op \<in> set [''<='', ''>='', ''==''] \<longrightarrow> keys_ok keys \<longrightarrow> broadcast_list b = Inr bc \<longrightarrow>
       for_each (process_variable (variables s) (parameters s) bc (constraints_len s) (if op = ''<='' then 1 else - 1))
         pre (None, a_dict s) = Inr (Some c, ad) \<longrightarrow>
       resolve_variable (variables s) (parameters s) bc vv vk = Inr (vi, pn, m, bl) \<longrightarrow>
       length m \<noteq> length c \<longrightarrow>
       define_constraint_low_level s (pre @ (vf, vv, vk) # post) op cs keys b
         = Inl (ValueError ''Dimension mismatch at variable''))
   \<and> (op \<in> set [''<='', ''>='', ''==''] \<longrightarrow> vs \<noteq> [] \<longrightarrow> keys_ok keys \<longrightarrow> broadcast_list b = Inr bc \<longrightarrow>
       for_each (process_variable (variables s) (parameters s) bc (constraints_len s) (if op = ''<='' then 1 else - 1))
         vs (None, a_dict s) = Inr (ci0, ad) \<longrightarrow>
       for_each (process_constant (parameters s) bc (constraints_len s) (if op = ''<='' then 1 else - 1))
         cpre (ci0, b_dict s) = Inr (Some c, bd) \<longrightarrow>
       resolve_constant (parameters s) bc (Some c) cv ck = Inr (cpn, val, cbl) \<longrightarrow>
       num_len val \<noteq> length c \<longrightarrow>
       define_constraint_low_level s vs op (cpre @ (cf, cv, ck) # cpost) keys b
         = Inl (ValueError ''Dimension mismatch at constant''))"
proof (intro conjI impI)
  assume a: "for_each (process_variable V P bc L f) ((vf, vv, vk) # rest) (None, ad0) = Inr (ci, ad')"
     and r: "resolve_variable V P bc vv vk = Inr (vi, pn, m, bl)"
  from a obtain ci1 ad1 where 1: "process_variable V P bc L f (vf, vv, vk) (None, ad0) = Inr (ci1, ad1)"
    and 2: "for_each (process_variable V P bc L f) rest (ci1, ad1) = Inr (ci, ad')"
    by (auto split: sum.splits)
  from 1 r have "ci1 = Some [L..<L + length m]" by (rule process_variable_first)
  with 2 show "ci = Some [L..<L + length m]" by (auto dest: process_variables_keep_index)
next
  let ?vs = "pre @ (vf, vv, vk) # post"
  assume op: "op \<in> set [''<='', ''>='', ''=='']" and k: "keys_ok keys" and b: "broadcast_list b = Inr bc"
     and loop: "for_each (process_variable (variables s) (parameters s) bc (constraints_len s) (if op = ''<='' then 1 else - 1))
         pre (None, a_dict s) = Inr (Some c, ad)"
     and r: "resolve_variable (variables s) (parameters s) bc vv vk = Inr (vi, pn, m, bl)"
     and ne: "length m \<noteq> length c"
  have vs: "?vs \<noteq> []" by simp
  show "define_constraint_low_level s ?vs op cs keys b = Inl (ValueError ''Dimension mismatch at variable'')"
  proof (cases "op = ''==''")
    case True
    have "define_inequality s ?vs ''>='' cs keys' bc = Inl (ValueError ''Dimension mismatch at variable'')" for keys'
      using loop r ne True by (intro define_inequality_variable_mismatch) auto
    with vs k b show ?thesis unfolding True by (rule low_level_equality_error)
  next
    case False
    with op have op': "op \<in> set [''<='', ''>='']" by auto
    have "define_inequality s ?vs op cs keys bc = Inl (ValueError ''Dimension mismatch at variable'')"
      using loop r ne op' by (intro define_inequality_variable_mismatch) auto
    with low_level_inequality [OF op' vs k b] show ?thesis by simp
  qed
next
  let ?cs = "cpre @ (cf, cv, ck) # cpost"
  assume op: "op \<in> set [''<='', ''>='', ''=='']" and vs: "vs \<noteq> []" and k: "keys_ok keys"
     and b: "broadcast_list b = Inr bc"
     and loop: "for_each (process_variable (variables s) (parameters s) bc (constraints_len s) (if op = ''<='' then 1 else - 1))
         vs (None, a_dict s) = Inr (ci0, ad)"
     and cloop: "for_each (process_constant (parameters s) bc (constraints_len s) (if op = ''<='' then 1 else - 1))
         cpre (ci0, b_dict s) = Inr (Some c, bd)"
     and r: "resolve_constant (parameters s) bc (Some c) cv ck = Inr (cpn, val, cbl)"
     and ne: "num_len val \<noteq> length c"
  show "define_constraint_low_level s vs op ?cs keys b = Inl (ValueError ''Dimension mismatch at constant'')"
  proof (cases "op = ''==''")
    case True
    have "define_inequality s vs ''>='' ?cs keys' bc = Inl (ValueError ''Dimension mismatch at constant'')" for keys'
      using loop cloop r ne True by (intro define_inequality_constant_mismatch) auto
    with vs k b show ?thesis unfolding True by (rule low_level_equality_error)
  next
    case False
    with op have op': "op \<in> set [''<='', ''>='']" by auto
    have "define_inequality s vs op ?cs keys bc = Inl (ValueError ''Dimension mismatch at constant'')"
      using loop cloop r ne op' by (intro define_inequality_constant_mismatch) auto
    with low_level_inequality [OF op' vs k b] show ?thesis by simp
  qed
qed

theorem constraint_row_count_witness:
  "define_constraint_low_level problem_x [unit_term, row_term] ''<='' [] None BNone
     = Inl (ValueError ''Dimension mismatch at variable'')
   \<and> define_constraint_low_level problem_x [unit_term] ''<='' [(1, Lit (Flat [1, 2, 3]), None)] None BNone
     = Inl (ValueError ''Dimension mismatch at constant'')"
proof -
  let ?V = "variables problem_x" and ?P = "parameters problem_x" and ?L = "constraints_len problem_x"
  let ?ad = "[(([0, 1], [0, 1]), [ALit [[1, 0], [0, 1]]])]"
  have op: "''<='' \<in> set [''<='', ''>='', ''=='']" by simp
  have k: "keys_ok None" by (simp add: keys_ok_def)
  have b: "broadcast_list BNone = Inr None" by simp
  have loop: "for_each (process_variable ?V ?P None ?L (if ''<='' = ''<='' then 1 else - 1))
                [unit_term] (None, a_dict problem_x) = Inr (Some [0, 1], ?ad)"
    by code_simp
  have r: "resolve_variable ?V ?P None (Lit (Matrix [[1, 1]])) [(''name'', Single (KStr ''x''))]
             = Inr ([0, 1], None, [[1, 1]], 1)"
    by code_simp
  have ne: "length [[1, 1 :: real]] \<noteq> length [0, 1 :: nat]" by simp
  have cloop: "for_each (process_constant ?P None ?L (if ''<='' = ''<='' then 1 else - 1))
                 [] (Some [0, 1], b_dict problem_x) = Inr (Some [0, 1], b_dict problem_x)"
    by simp
  have rc: "resolve_constant ?P None (Some [0, 1]) (Lit (Flat [1, 2, 3])) None = Inr (None, Flat [1, 2, 3], 1)"
    by code_simp
  have nec: "num_len (Flat [1, 2, 3]) \<noteq> length [0, 1 :: nat]" by simp
  have first: "for_each (process_variable ?V ?P None ?L 1) (unit_term # []) (None, a_dict problem_x) = Inr (Some [0, 1], ?ad)"
    using loop by simp
  note th = constraint_row_count [where s = problem_x and op = "''<=''" and keys = None and b = BNone
      and bc = None and pre = "[unit_term]" and c = "[0, 1]" and ad = ?ad
      and vv = "Lit (Matrix [[1, 1]])" and vk = "[(''name'', Single (KStr ''x''))]" and vi = "[0, 1]"
      and pn = None and m = "[[1, 1]]" and bl = 1 and vf = 1 and post = "[]" and cs = "[]"
      and vs = "[unit_term]" and ci0 = "Some [0, 1]" and cpre = "[]" and bd = "b_dict problem_x"
      and cv = "Lit (Flat [1, 2, 3])" and ck = None and cpn = None and val = "Flat [1, 2, 3]" and cbl = 1
      and cf = 1 and cpost = "[]"]
  from th op k b loop r ne cloop rc nec show ?thesis
    by (simp add: row_term_def)
qed

section \<open>Parameter mutation and recompilation\<close>




































end
